theory Spec2Isabelle
  imports Complex_Main
begin

section \<open>QIResult: the probability and calibration accessors\<close>

text \<open>
  The theory embeds \<^verbatim>\<open>src/quantuminspire/qiskit/qi_result.py\<close>: the class
  \<^verbatim>\<open>QIResult\<close>, which extends the SDK's \<^verbatim>\<open>Result\<close> with the two accessors
  \<^verbatim>\<open>get_probabilities\<close> and \<^verbatim>\<open>get_calibration\<close>.

  The accessors consume four operations that the SDK supplies and that are not part
  of this repository: the experiment resolver \<^verbatim>\<open>Result._get_experiment\<close>, the
  data accessor \<^verbatim>\<open>Result.data\<close>, the header decoding
  \<^verbatim>\<open>exp.header.to_dict()\<close> and \<^verbatim>\<open>postprocess.format_counts\<close>. They are
  parameters of the model (a record of functions), so every theorem holds for
  whatever these operations compute.
\<close>

subsection \<open>Data model\<close>

text \<open>
  The argument \<^verbatim>\<open>experiment\<close>, when it is not \<^verbatim>\<open>None\<close>, is an integer
  index, a name, or an experiment object (a circuit or schedule). Of an object the
  accessors observe two things only: the resolver reads its name, and the error
  message renders it with \<^verbatim>\<open>str\<close>.
\<close>

datatype exp_key =
    Index int
  | Name string
  | Object (obj_name: string) (obj_str: string)

text \<open>
  The errors a call can end in: a \<^verbatim>\<open>QiskitError\<close> raised inside the resolver
  or the data accessor and passed on unchanged, the \<^verbatim>\<open>QiskitBackendError\<close> the
  accessors raise themselves, the \<^verbatim>\<open>KeyError\<close> of a subscript
  \<^verbatim>\<open>self.data(key)["..."]\<close> on a mapping without the key, and an exception of
  any other class that header decoding raised and the \<^verbatim>\<open>try\<close> statement did not
  catch (it carries what identifies the exception, its class say).
\<close>

datatype error =
    QiskitError string
  | QiskitBackendError string
  | KeyError string
  | OtherException string

text \<open>
  Header decoding \<^verbatim>\<open>exp.header.to_dict()\<close> either returns the header's mapping
  or raises. The source tells three cases apart: the record has no \<^verbatim>\<open>header\<close>
  attribute (\<^verbatim>\<open>AttributeError\<close>), the conversion raises a \<^verbatim>\<open>QiskitError\<close>, or
  it raises an exception of any other class, a \<^verbatim>\<open>ValueError\<close> say. The
  \<^verbatim>\<open>except\<close> clause names the first two.
\<close>

datatype header_failure =
    Header_AttributeError
  | Header_QiskitError string
  | Header_OtherException string

text \<open>
  The return type \<^verbatim>\<open>Union[Dict, List[Dict]]\<close>: one mapping, or a list of them.
\<close>

datatype 'a returned =
    Single 'a
  | Many "'a list"

fun mappings :: "'a returned \<Rightarrow> 'a list" where
  "mappings (Single m) = [m]"
| "mappings (Many ms) = ms"

text \<open>
  The object built by \<^verbatim>\<open>QIResult.__init__\<close>, which hands every argument to the
  base class. The accessors read \<^verbatim>\<open>self.results\<close>; the record's extension
  stands for whatever else the base class keeps (date, status, header, metadata).
\<close>

record 'e qi_result =
  backend_name :: string
  backend_version :: string
  qobj_id :: string
  job_id :: string
  success :: bool
  results :: "'e list"

text \<open>
  The SDK's operations, as reads of the result object. \<open>'e\<close> is the type of
  an experiment's result record, \<open>'v\<close> of the values of a data mapping, \<open>'h\<close> of a
  decoded header, \<open>'m\<close> of a formatted mapping. The resolver and the data accessor
  return the message of the \<^verbatim>\<open>QiskitError\<close> they raise, or their value.

  The resolver and the data accessor fail with \<^verbatim>\<open>QiskitError\<close>, as the SDK
  documents them; header decoding, the one operation the source guards, may raise
  an exception of any class; \<^verbatim>\<open>format_counts\<close>, around which the source has no
  handler, is a total function.
\<close>

record ('e, 'z, 'v, 'h, 'm) framework =
  get_experiment :: "('e, 'z) qi_result_scheme \<Rightarrow> exp_key \<Rightarrow> string + 'e"
  data :: "('e, 'z) qi_result_scheme \<Rightarrow> exp_key \<Rightarrow> string + (string \<rightharpoonup> 'v)"
  header_to_dict :: "'e \<Rightarrow> header_failure + 'h"
  format_counts :: "'v \<Rightarrow> 'h option \<Rightarrow> 'm"

subsection \<open>Rendering a key in an error message\<close>

text \<open>
  \<^verbatim>\<open>'... "{0}"'.format(key)\<close> renders the key with \<^verbatim>\<open>str\<close>: an integer in
  decimal, a string as it is, an object by its own \<^verbatim>\<open>__str__\<close>.
\<close>

fun str_nat :: "nat \<Rightarrow> string" where
  "str_nat n =
     (if n < 10 then [''0123456789'' ! n]
      else str_nat (n div 10) @ [''0123456789'' ! (n mod 10)])"

declare str_nat.simps [simp del]

definition str_int :: "int \<Rightarrow> string" where
  "str_int i = (if i < 0 then CHR ''-'' # str_nat (nat (- i)) else str_nat (nat i))"

fun str_key :: "exp_key \<Rightarrow> string" where
  "str_key (Index i) = str_int i"
| "str_key (Name s) = s"
| "str_key (Object n s) = s"

definition no_probabilities :: "exp_key \<Rightarrow> error" where
  "no_probabilities key =
     QiskitBackendError (''No probabilities for experiment \"'' @ str_key key @ ''\"'')"

definition no_calibration :: "exp_key \<Rightarrow> error" where
  "no_calibration key =
     QiskitBackendError (''No calibration data for experiment \"'' @ str_key key @ ''\"'')"

subsection \<open>The accessors\<close>

text \<open>
  \<^verbatim>\<open>exp_keys\<close>: \<^verbatim>\<open>range(len(self.results))\<close> when \<^verbatim>\<open>experiment is None\<close>,
  else the one-element list \<^verbatim>\<open>[experiment]\<close>.
\<close>

definition exp_keys :: "('e, 'z) qi_result_scheme \<Rightarrow> exp_key option \<Rightarrow> exp_key list" where
  "exp_keys r experiment =
     (case experiment of
        None \<Rightarrow> map (\<lambda>i. Index (int i)) [0 ..< length (results r)]
      | Some k \<Rightarrow> [k])"

text \<open>
  The \<^verbatim>\<open>try\<close> statement of \<^verbatim>\<open>get_probabilities\<close>: the two failures the
  \<^verbatim>\<open>except\<close> clause names give \<^verbatim>\<open>header = None\<close>; an exception of any other
  class is not caught and leaves the accessor.
\<close>

fun handle_header :: "header_failure + 'h \<Rightarrow> error + 'h option" where
  "handle_header (Inr h) = Inr (Some h)"
| "handle_header (Inl Header_AttributeError) = Inr None"
| "handle_header (Inl (Header_QiskitError msg)) = Inr None"
| "handle_header (Inl (Header_OtherException x)) = Inl (OtherException x)"

definition decode_header ::
  "('e, 'z, 'v, 'h, 'm) framework \<Rightarrow> 'e \<Rightarrow> error + 'h option" where
  "decode_header fw exper = handle_header (header_to_dict fw exper)"

text \<open>
  One pass through the body of the loop of \<^verbatim>\<open>get_probabilities\<close>, for one key:
  the value appended to \<^verbatim>\<open>dict_list\<close>, or the error that ends the call. Both
  occurrences of \<^verbatim>\<open>self.data(key)\<close> read the same mapping here, the operations
  being functions of the result object.
\<close>

definition probabilities_entry ::
  "('e, 'z, 'v, 'h, 'm) framework \<Rightarrow> ('e, 'z) qi_result_scheme \<Rightarrow> exp_key \<Rightarrow> error + 'm" where
  "probabilities_entry fw r key =
     (case get_experiment fw r key of
        Inl msg \<Rightarrow> Inl (QiskitError msg)
      | Inr exper \<Rightarrow>
          (case decode_header fw exper of
             Inl e \<Rightarrow> Inl e
           | Inr header \<Rightarrow>
               (case data fw r key of
                  Inl msg \<Rightarrow> Inl (QiskitError msg)
                | Inr d \<Rightarrow>
                    (case d ''probabilities'' of
                       Some probabilities \<Rightarrow> Inr (format_counts fw probabilities header)
                     | None \<Rightarrow> Inl (no_probabilities key)))))"

fun probabilities_loop ::
  "('e, 'z, 'v, 'h, 'm) framework \<Rightarrow> ('e, 'z) qi_result_scheme \<Rightarrow> exp_key list \<Rightarrow> 'm list
     \<Rightarrow> error + 'm list" where
  "probabilities_loop fw r [] dict_list = Inr dict_list"
| "probabilities_loop fw r (key # keys) dict_list =
     (case probabilities_entry fw r key of
        Inl e \<Rightarrow> Inl e
      | Inr m \<Rightarrow> probabilities_loop fw r keys (dict_list @ [m]))"

text \<open>The last four lines of both accessors: a list of size 1 is unwrapped.\<close>

definition collapse :: "'a list \<Rightarrow> 'a returned" where
  "collapse dict_list = (if length dict_list = 1 then Single (dict_list ! 0) else Many dict_list)"

definition get_probabilities ::
  "('e, 'z, 'v, 'h, 'm) framework \<Rightarrow> ('e, 'z) qi_result_scheme \<Rightarrow> exp_key option
     \<Rightarrow> error + 'm returned" where
  "get_probabilities fw r experiment =
     (case probabilities_loop fw r (exp_keys r experiment) [] of
        Inl e \<Rightarrow> Inl e
      | Inr dict_list \<Rightarrow> Inr (collapse dict_list))"

text \<open>
  \<^verbatim>\<open>get_calibration\<close>: the same loop without header decoding; the stored value
  is appended as it is.
\<close>

definition calibration_entry ::
  "('e, 'z, 'v, 'h, 'm) framework \<Rightarrow> ('e, 'z) qi_result_scheme \<Rightarrow> exp_key \<Rightarrow> error + 'v" where
  "calibration_entry fw r key =
     (case get_experiment fw r key of
        Inl msg \<Rightarrow> Inl (QiskitError msg)
      | Inr exper \<Rightarrow>
          (case data fw r key of
             Inl msg \<Rightarrow> Inl (QiskitError msg)
           | Inr d \<Rightarrow>
               (case d ''calibration'' of
                  Some calibration \<Rightarrow> Inr calibration
                | None \<Rightarrow> Inl (no_calibration key))))"

fun calibration_loop ::
  "('e, 'z, 'v, 'h, 'm) framework \<Rightarrow> ('e, 'z) qi_result_scheme \<Rightarrow> exp_key list \<Rightarrow> 'v list
     \<Rightarrow> error + 'v list" where
  "calibration_loop fw r [] dict_list = Inr dict_list"
| "calibration_loop fw r (key # keys) dict_list =
     (case calibration_entry fw r key of
        Inl e \<Rightarrow> Inl e
      | Inr c \<Rightarrow> calibration_loop fw r keys (dict_list @ [c]))"

definition get_calibration ::
  "('e, 'z, 'v, 'h, 'm) framework \<Rightarrow> ('e, 'z) qi_result_scheme \<Rightarrow> exp_key option
     \<Rightarrow> error + 'v returned" where
  "get_calibration fw r experiment =
     (case calibration_loop fw r (exp_keys r experiment) [] of
        Inl e \<Rightarrow> Inl e
      | Inr dict_list \<Rightarrow> Inr (collapse dict_list))"

subsection \<open>Notions for stating the properties\<close>

text \<open>
  Both loops have one shape: run the body on each key in turn, append its value,
  stop at the first error. \<open>gather\<close> is that shape with the body as a parameter.
\<close>

fun gather :: "('k \<Rightarrow> 'x + 'a) \<Rightarrow> 'k list \<Rightarrow> 'a list \<Rightarrow> 'x + 'a list" where
  "gather body [] acc = Inr acc"
| "gather body (key # keys) acc =
     (case body key of
        Inl e \<Rightarrow> Inl e
      | Inr a \<Rightarrow> gather body keys (acc @ [a]))"


text \<open>
  Position \<open>j\<close> is the first of the keys whose experiment lacks the field: it and
  every key before it resolve, the keys before it hold the field, it does not.
\<close>

text \<open>
  Header decoding failed in one of the two ways the \<^verbatim>\<open>except\<close> clause names.
\<close>

fun caught_failure :: "header_failure + 'h \<Rightarrow> bool" where
  "caught_failure (Inl Header_AttributeError) = True"
| "caught_failure (Inl (Header_QiskitError msg)) = True"
| "caught_failure (Inl (Header_OtherException x)) = False"
| "caught_failure (Inr h) = False"

text \<open>
  Header decoding of a key's experiment raises nothing that the accessor leaves
  uncaught (vacuously so when the resolver fails on the key).
\<close>

definition header_caught ::
  "('e, 'z, 'v, 'h, 'm) framework \<Rightarrow> ('e, 'z) qi_result_scheme \<Rightarrow> exp_key \<Rightarrow> bool" where
  "header_caught fw r key =
     (case get_experiment fw r key of
        Inl msg \<Rightarrow> True
      | Inr exper \<Rightarrow>
          (case header_to_dict fw exper of
             Inl (Header_OtherException x) \<Rightarrow> False
           | _ \<Rightarrow> True))"



text \<open>
  Reading a decimal numeral back: the digits from the left, a leading minus sign
  for a negative number. A text \<open>renders\<close> a key when it identifies it: for an
  index the text reads back as that integer, for a name it is the name, for an
  object it is what \<^verbatim>\<open>str\<close> gives for the object.
\<close>

definition digit_value :: "char \<Rightarrow> nat option" where
  "digit_value c = map_of (zip ''0123456789'' [0 ..< 10]) c"

fun read_digits :: "nat \<Rightarrow> string \<Rightarrow> nat option" where
  "read_digits acc [] = Some acc"
| "read_digits acc (c # cs) =
     (case digit_value c of
        None \<Rightarrow> None
      | Some d \<Rightarrow> read_digits (10 * acc + d) cs)"

definition read_nat :: "string \<Rightarrow> nat option" where
  "read_nat s = (if s = [] then None else read_digits 0 s)"

definition read_int :: "string \<Rightarrow> int option" where
  "read_int s =
     (if s \<noteq> [] \<and> hd s = CHR ''-'' then map_option (\<lambda>n. - int n) (read_nat (tl s))
      else map_option int (read_nat s))"

fun renders :: "exp_key \<Rightarrow> string \<Rightarrow> bool" where
  "renders (Index i) text = (read_int text = Some i)"
| "renders (Name s) text = (text = s)"
| "renders (Object n s) text = (text = s)"

text \<open>
  What one pass of each loop is to yield for a key, said of the SDK's operations
  alone. \<open>probabilities_of\<close>: the key resolves, header decoding returns a header or
  fails in a way the \<^verbatim>\<open>except\<close> clause names, the data mapping holds
  probabilities, and the mapping is \<^verbatim>\<open>format_counts\<close> of them and of the header,
  \<^verbatim>\<open>None\<close> after a failure. \<open>calibration_of\<close>: the key resolves and the value is
  what the data mapping holds as calibration.
\<close>

definition probabilities_of ::
  "('e, 'z, 'v, 'h, 'm) framework \<Rightarrow> ('e, 'z) qi_result_scheme \<Rightarrow> exp_key \<Rightarrow> 'm \<Rightarrow> bool" where
  "probabilities_of fw r key m \<longleftrightarrow>
     (\<exists>exper d p.
        get_experiment fw r key = Inr exper \<and>
        (\<forall>x. header_to_dict fw exper \<noteq> Inl (Header_OtherException x)) \<and>
        data fw r key = Inr d \<and> d ''probabilities'' = Some p \<and>
        m = format_counts fw p (case header_to_dict fw exper of Inl f \<Rightarrow> None | Inr h \<Rightarrow> Some h))"

definition calibration_of ::
  "('e, 'z, 'v, 'h, 'm) framework \<Rightarrow> ('e, 'z) qi_result_scheme \<Rightarrow> exp_key \<Rightarrow> 'v \<Rightarrow> bool" where
  "calibration_of fw r key c \<longleftrightarrow>
     (\<exists>exper d.
        get_experiment fw r key = Inr exper \<and> data fw r key = Inr d \<and>
        d ''calibration'' = Some c)"

text \<open>
  The errors one pass of the loop of \<^verbatim>\<open>get_probabilities\<close> may end in, said of
  the SDK's operations alone: the resolver's error; the exception of header
  decoding that is not caught; the data accessor's error; the missing-data error,
  whose message quotes a text that renders the key.
\<close>

definition probabilities_error ::
  "('e, 'z, 'v, 'h, 'm) framework \<Rightarrow> ('e, 'z) qi_result_scheme \<Rightarrow> exp_key \<Rightarrow> error \<Rightarrow> bool"
  where
  "probabilities_error fw r key err \<longleftrightarrow>
     (\<exists>msg. get_experiment fw r key = Inl msg \<and> err = QiskitError msg) \<or>
     (\<exists>exper x. get_experiment fw r key = Inr exper \<and>
        header_to_dict fw exper = Inl (Header_OtherException x) \<and> err = OtherException x) \<or>
     (\<exists>exper msg. get_experiment fw r key = Inr exper \<and> header_caught fw r key \<and>
        data fw r key = Inl msg \<and> err = QiskitError msg) \<or>
     (\<exists>exper d text. get_experiment fw r key = Inr exper \<and> header_caught fw r key \<and>
        data fw r key = Inr d \<and> d ''probabilities'' = None \<and> renders key text \<and>
        err = QiskitBackendError (''No probabilities for experiment \"'' @ text @ ''\"''))"

subsection \<open>The accessors as state transformers\<close>

text \<open>
  For the effect of a call on the result object, the same two methods once more,
  with the result object threaded through every call the source makes: each
  operation of the SDK takes the object and returns it with its value, and may
  return it changed. The statements are those of the source, in its order; here the
  two occurrences of \<^verbatim>\<open>self.data(key)\<close> are two calls, and the subscript of the
  second raises \<^verbatim>\<open>KeyError\<close> on a mapping without the key.
\<close>

record ('e, 'z, 'v, 'h, 'm) framework_st =
  get_experiment_st ::
    "exp_key \<Rightarrow> ('e, 'z) qi_result_scheme \<Rightarrow> (string + 'e) \<times> ('e, 'z) qi_result_scheme"
  data_st ::
    "exp_key \<Rightarrow> ('e, 'z) qi_result_scheme
       \<Rightarrow> (string + (string \<rightharpoonup> 'v)) \<times> ('e, 'z) qi_result_scheme"
  header_to_dict_st ::
    "'e \<Rightarrow> ('e, 'z) qi_result_scheme \<Rightarrow> (header_failure + 'h) \<times> ('e, 'z) qi_result_scheme"
  format_counts_st ::
    "'v \<Rightarrow> 'h option \<Rightarrow> ('e, 'z) qi_result_scheme \<Rightarrow> 'm \<times> ('e, 'z) qi_result_scheme"

fun probabilities_loop_st ::
  "('e, 'z, 'v, 'h, 'm) framework_st \<Rightarrow> exp_key list \<Rightarrow> 'm list \<Rightarrow> ('e, 'z) qi_result_scheme
     \<Rightarrow> (error + 'm list) \<times> ('e, 'z) qi_result_scheme" where
  "probabilities_loop_st fws [] dict_list s = (Inr dict_list, s)"
| "probabilities_loop_st fws (key # keys) dict_list s =
     (case get_experiment_st fws key s of
        (Inl msg, s1) \<Rightarrow> (Inl (QiskitError msg), s1)
      | (Inr exper, s1) \<Rightarrow>
          (case header_to_dict_st fws exper s1 of
             (decoded, s2) \<Rightarrow>
               (case handle_header decoded of
                  Inl e \<Rightarrow> (Inl e, s2)
                | Inr header \<Rightarrow>
                    (case data_st fws key s2 of
                       (Inl msg, s3) \<Rightarrow> (Inl (QiskitError msg), s3)
                     | (Inr d, s3) \<Rightarrow>
                         (if d ''probabilities'' \<noteq> None then
                            (case data_st fws key s3 of
                               (Inl msg, s4) \<Rightarrow> (Inl (QiskitError msg), s4)
                             | (Inr d', s4) \<Rightarrow>
                                 (case d' ''probabilities'' of
                                    None \<Rightarrow> (Inl (KeyError ''probabilities''), s4)
                                  | Some probabilities \<Rightarrow>
                                      (case format_counts_st fws probabilities header s4 of
                                         (m, s5) \<Rightarrow>
                                           probabilities_loop_st fws keys (dict_list @ [m]) s5)))
                          else (Inl (no_probabilities key), s3))))))"

definition get_probabilities_st ::
  "('e, 'z, 'v, 'h, 'm) framework_st \<Rightarrow> exp_key option \<Rightarrow> ('e, 'z) qi_result_scheme
     \<Rightarrow> (error + 'm returned) \<times> ('e, 'z) qi_result_scheme" where
  "get_probabilities_st fws experiment s =
     (case probabilities_loop_st fws (exp_keys s experiment) [] s of
        (Inl e, s') \<Rightarrow> (Inl e, s')
      | (Inr dict_list, s') \<Rightarrow> (Inr (collapse dict_list), s'))"

fun calibration_loop_st ::
  "('e, 'z, 'v, 'h, 'm) framework_st \<Rightarrow> exp_key list \<Rightarrow> 'v list \<Rightarrow> ('e, 'z) qi_result_scheme
     \<Rightarrow> (error + 'v list) \<times> ('e, 'z) qi_result_scheme" where
  "calibration_loop_st fws [] dict_list s = (Inr dict_list, s)"
| "calibration_loop_st fws (key # keys) dict_list s =
     (case get_experiment_st fws key s of
        (Inl msg, s1) \<Rightarrow> (Inl (QiskitError msg), s1)
      | (Inr exper, s1) \<Rightarrow>
          (case data_st fws key s1 of
             (Inl msg, s2) \<Rightarrow> (Inl (QiskitError msg), s2)
           | (Inr d, s2) \<Rightarrow>
               (if d ''calibration'' \<noteq> None then
                  (case data_st fws key s2 of
                     (Inl msg, s3) \<Rightarrow> (Inl (QiskitError msg), s3)
                   | (Inr d', s3) \<Rightarrow>
                       (case d' ''calibration'' of
                          None \<Rightarrow> (Inl (KeyError ''calibration''), s3)
                        | Some calibration \<Rightarrow>
                            calibration_loop_st fws keys (dict_list @ [calibration]) s3))
                else (Inl (no_calibration key), s2))))"

definition get_calibration_st ::
  "('e, 'z, 'v, 'h, 'm) framework_st \<Rightarrow> exp_key option \<Rightarrow> ('e, 'z) qi_result_scheme
     \<Rightarrow> (error + 'v returned) \<times> ('e, 'z) qi_result_scheme" where
  "get_calibration_st fws experiment s =
     (case calibration_loop_st fws (exp_keys s experiment) [] s of
        (Inl e, s') \<Rightarrow> (Inl e, s')
      | (Inr dict_list, s') \<Rightarrow> (Inr (collapse dict_list), s'))"

text \<open>
  The operations are reads when each returns the object it was given. Then they
  are the operations of a \<^typ>\<open>('e, 'z, 'v, 'h, 'm) framework\<close>.
\<close>

definition reads_only :: "('e, 'z, 'v, 'h, 'm) framework_st \<Rightarrow> bool" where
  "reads_only fws \<longleftrightarrow>
     (\<forall>key s. snd (get_experiment_st fws key s) = s) \<and>
     (\<forall>key s. snd (data_st fws key s) = s) \<and>
     (\<forall>exper s. snd (header_to_dict_st fws exper s) = s) \<and>
     (\<forall>v h s. snd (format_counts_st fws v h s) = s)"

definition reads_of ::
  "('e, 'z, 'v, 'h, 'm) framework_st \<Rightarrow> ('e, 'z) qi_result_scheme
     \<Rightarrow> ('e, 'z, 'v, 'h, 'm) framework" where
  "reads_of fws s =
     \<lparr>get_experiment = (\<lambda>s' key. fst (get_experiment_st fws key s')),
      data = (\<lambda>s' key. fst (data_st fws key s')),
      header_to_dict = (\<lambda>exper. fst (header_to_dict_st fws exper s)),
      format_counts = (\<lambda>v h. fst (format_counts_st fws v h s))\<rparr>"

definition as_reads ::
  "('e, 'z, 'v, 'h, 'm) framework \<Rightarrow> ('e, 'z, 'v, 'h, 'm) framework_st" where
  "as_reads fw =
     \<lparr>get_experiment_st = (\<lambda>key s. (get_experiment fw s key, s)),
      data_st = (\<lambda>key s. (data fw s key, s)),
      header_to_dict_st = (\<lambda>exper s. (header_to_dict fw exper, s)),
      format_counts_st = (\<lambda>v h s. (format_counts fw v h, s))\<rparr>"

subsection \<open>An instance of the SDK's operations\<close>

text \<open>
  Modelled from the spec: the base Result store, its experiment resolver, its data
  accessor, header decoding and the formatting routine are code of the SDK, absent
  from the repository. The instance below follows the spec's description of them (an
  ordered collection of result records, each with a data mapping and an optional
  header; a resolver that takes an index, a name or an object and fails on an
  identifier that does not exist). It serves to run the accessors on concrete
  stores; no theorem about the accessors depends on it.
\<close>

record exp_header =
  header_name :: string
  memory_slots :: nat

datatype header_attr =
    No_header
  | Undecodable string
  | Raising string
  | Header exp_header

record experiment_result =
  shots :: nat
  exp_header :: header_attr
  exp_data :: "(string \<times> (string \<times> real) list) list"

definition named :: "string \<Rightarrow> experiment_result \<Rightarrow> bool" where
  "named n e = (case exp_header e of Header h \<Rightarrow> header_name h = n | _ \<Rightarrow> False)"

definition by_name :: "experiment_result list \<Rightarrow> string \<Rightarrow> string + experiment_result" where
  "by_name rs n =
     (case filter (named n) rs of
        [] \<Rightarrow> Inl (''Data for experiment \"'' @ n @ ''\" could not be found.'')
      | e # _ \<Rightarrow> Inr e)"

fun sdk_get_experiment ::
  "(experiment_result, 'z) qi_result_scheme \<Rightarrow> exp_key \<Rightarrow> string + experiment_result" where
  "sdk_get_experiment r (Index i) =
     (let n = int (length (results r)) in
      if 0 \<le> i \<and> i < n then Inr (results r ! nat i)
      else if - n \<le> i \<and> i < 0 then Inr (results r ! nat (n + i))
      else Inl (''Result for experiment \"'' @ str_int i @ ''\" could not be found.''))"
| "sdk_get_experiment r (Name n) = by_name (results r) n"
| "sdk_get_experiment r (Object n s) = by_name (results r) n"

definition sdk_data ::
  "(experiment_result, 'z) qi_result_scheme \<Rightarrow> exp_key
     \<Rightarrow> string + (string \<rightharpoonup> (string \<times> real) list)" where
  "sdk_data r key =
     (case sdk_get_experiment r key of
        Inl msg \<Rightarrow> Inl msg
      | Inr e \<Rightarrow> Inr (map_of (exp_data e)))"

definition sdk_header_to_dict :: "experiment_result \<Rightarrow> header_failure + exp_header" where
  "sdk_header_to_dict e =
     (case exp_header e of
        No_header \<Rightarrow> Inl Header_AttributeError
      | Undecodable msg \<Rightarrow> Inl (Header_QiskitError msg)
      | Raising x \<Rightarrow> Inl (Header_OtherException x)
      | Header h \<Rightarrow> Inr h)"

definition pad_zeros :: "nat \<Rightarrow> string \<Rightarrow> string" where
  "pad_zeros width bits = replicate (width - length bits) CHR ''0'' @ bits"

definition sdk_format_counts ::
  "(string \<times> real) list \<Rightarrow> exp_header option \<Rightarrow> (string \<times> real) list" where
  "sdk_format_counts counts header =
     (case header of
        None \<Rightarrow> counts
      | Some h \<Rightarrow> map (\<lambda>(k, v). (pad_zeros (memory_slots h) k, v)) counts)"

definition sdk ::
  "(experiment_result, unit, (string \<times> real) list, exp_header, (string \<times> real) list) framework"
  where
  "sdk =
     \<lparr>get_experiment = sdk_get_experiment,
      data = sdk_data,
      header_to_dict = sdk_header_to_dict,
      format_counts = sdk_format_counts\<rparr>"

definition store :: "experiment_result list \<Rightarrow> experiment_result qi_result" where
  "store rs =
     \<lparr>backend_name = ''QX single-node simulator'', backend_version = ''2.0'',
      qobj_id = ''q1'', job_id = ''42'', success = True, results = rs\<rparr>"

text \<open>
  Result records: with and without probabilities, calibration and header; the
  headers of the last two raise a \<^verbatim>\<open>ValueError\<close> when decoded.
\<close>

definition bell :: experiment_result where
  "bell =
     \<lparr>shots = 1024, exp_header = Header \<lparr>header_name = ''bell'', memory_slots = 2\<rparr>,
      exp_data = [(''counts'', [(''0x0'', 512), (''0x3'', 512)]),
                  (''probabilities'', [(''0'', 0.5), (''11'', 0.5)]),
                  (''calibration'', [(''t1'', 17.5)])]\<rparr>"

definition flip :: experiment_result where
  "flip =
     \<lparr>shots = 1, exp_header = No_header,
      exp_data = [(''probabilities'', [(''1'', 1)]), (''calibration'', [])]\<rparr>"

definition bare :: experiment_result where
  "bare =
     \<lparr>shots = 1, exp_header = Undecodable ''bad header'',
      exp_data = [(''counts'', [(''0x1'', 1)])]\<rparr>"

definition ramsey :: experiment_result where
  "ramsey =
     \<lparr>shots = 256, exp_header = Header \<lparr>header_name = ''ramsey'', memory_slots = 1\<rparr>,
      exp_data = [(''counts'', [(''0x1'', 256)])]\<rparr>"

definition skew :: experiment_result where
  "skew =
     \<lparr>shots = 1, exp_header = Raising ''ValueError'',
      exp_data = [(''probabilities'', [(''1'', 1)])]\<rparr>"

definition blank :: experiment_result where
  "blank =
     \<lparr>shots = 1, exp_header = Raising ''ValueError'',
      exp_data = [(''counts'', [(''0x0'', 1)])]\<rparr>"

section \<open>Properties of the loops\<close>

text \<open>
  Each loop is \<open>gather\<close> of its body. A run of \<open>gather\<close> succeeds exactly when
  the body succeeds on every key, with the values in the order of the keys; it ends
  in the error of the first key the body fails on.
\<close>

lemma probabilities_loop_gather:
  "probabilities_loop fw r keys acc = gather (probabilities_entry fw r) keys acc"
  by (induction keys arbitrary: acc) (auto split: sum.splits)

lemma calibration_loop_gather:
  "calibration_loop fw r keys acc = gather (calibration_entry fw r) keys acc"
  by (induction keys arbitrary: acc) (auto split: sum.splits)

lemma gather_Inr:
  "gather body keys acc = Inr out \<longleftrightarrow>
     (\<exists>as. out = acc @ as \<and> list_all2 (\<lambda>key a. body key = Inr a) keys as)"
proof (induction keys arbitrary: acc)
  case Nil
  then show ?case by auto
next
  case (Cons key keys)
  show ?case
  proof (cases "body key")
    case (Inl e)
    then show ?thesis by (auto simp: list_all2_Cons1)
  next
    case (Inr a)
    then show ?thesis by (auto simp: Cons.IH list_all2_Cons1)
  qed
qed


lemma gather_Inl_cause:
  "gather body keys acc = Inl e \<Longrightarrow> \<exists>key \<in> set keys. body key = Inl e"
proof (induction keys arbitrary: acc)
  case Nil
  then show ?case by simp
next
  case (Cons key keys)
  then show ?case by (cases "body key") auto
qed

lemma collapse_mappings: "mappings (collapse xs) = xs"
  by (cases xs rule: list.exhaust; cases "tl xs") (auto simp: collapse_def)

lemma length_exp_keys:
  "length (exp_keys r experiment) = (case experiment of None \<Rightarrow> length (results r) | Some key \<Rightarrow> 1)"
  by (simp add: exp_keys_def split: option.splits)

lemma get_probabilities_Inr:
  "get_probabilities fw r experiment = Inr out \<Longrightarrow>
     out = collapse (mappings out) \<and>
     list_all2 (\<lambda>key m. probabilities_entry fw r key = Inr m) (exp_keys r experiment) (mappings out)"
  unfolding get_probabilities_def probabilities_loop_gather
  by (auto simp: gather_Inr collapse_mappings split: sum.splits)

lemma get_calibration_Inr:
  "get_calibration fw r experiment = Inr out \<Longrightarrow>
     out = collapse (mappings out) \<and>
     list_all2 (\<lambda>key c. calibration_entry fw r key = Inr c) (exp_keys r experiment) (mappings out)"
  unfolding get_calibration_def calibration_loop_gather
  by (auto simp: gather_Inr collapse_mappings split: sum.splits)



lemma handle_header_Inr:
  "handle_header decoded = Inr header \<longleftrightarrow>
     (\<forall>x. decoded \<noteq> Inl (Header_OtherException x)) \<and>
     header = (case decoded of Inl f \<Rightarrow> None | Inr h \<Rightarrow> Some h)"
  by (cases decoded rule: handle_header.cases) auto

lemma handle_header_Inl:
  "handle_header decoded = Inl e \<longleftrightarrow>
     (\<exists>x. decoded = Inl (Header_OtherException x) \<and> e = OtherException x)"
  by (cases decoded rule: handle_header.cases) auto

lemma header_caught_iff:
  "get_experiment fw r key = Inr exper \<Longrightarrow>
     header_caught fw r key \<longleftrightarrow>
       (\<forall>x. header_to_dict fw exper \<noteq> Inl (Header_OtherException x))"
  by (auto simp: header_caught_def split: sum.splits header_failure.splits)

lemma probabilities_entry_Inr:
  "probabilities_entry fw r key = Inr m \<longleftrightarrow> probabilities_of fw r key m"
proof (cases "get_experiment fw r key")
  case (Inl msg)
  then show ?thesis by (simp add: probabilities_entry_def probabilities_of_def)
next
  case (Inr exper)
  show ?thesis
  proof (cases "handle_header (header_to_dict fw exper)")
    case (Inl e)
    then have "\<exists>x. header_to_dict fw exper = Inl (Header_OtherException x)"
      by (auto simp: handle_header_Inl)
    with Inr Inl show ?thesis
      by (auto simp: probabilities_entry_def decode_header_def probabilities_of_def)
  next
    case ok: (Inr header)
    then have "\<forall>x. header_to_dict fw exper \<noteq> Inl (Header_OtherException x)"
      and "header = (case header_to_dict fw exper of Inl f \<Rightarrow> None | Inr h \<Rightarrow> Some h)"
      by (simp_all add: handle_header_Inr)
    with Inr ok show ?thesis
      by (auto simp: probabilities_entry_def decode_header_def probabilities_of_def
          split: sum.splits option.splits)
  qed
qed

lemma calibration_entry_Inr:
  "calibration_entry fw r key = Inr c \<longleftrightarrow> calibration_of fw r key c"
  by (auto simp: calibration_entry_def calibration_of_def split: sum.splits option.splits)

lemma probabilities_entry_Inl:
  "probabilities_entry fw r key = Inl err \<longleftrightarrow>
     (\<exists>msg. err = QiskitError msg \<and> get_experiment fw r key = Inl msg) \<or>
     (\<exists>exper x. err = OtherException x \<and> get_experiment fw r key = Inr exper \<and>
        header_to_dict fw exper = Inl (Header_OtherException x)) \<or>
     (\<exists>exper msg. err = QiskitError msg \<and> get_experiment fw r key = Inr exper \<and>
        header_caught fw r key \<and> data fw r key = Inl msg) \<or>
     (\<exists>exper d. err = no_probabilities key \<and> get_experiment fw r key = Inr exper \<and>
        header_caught fw r key \<and> data fw r key = Inr d \<and> d ''probabilities'' = None)"
proof (cases "get_experiment fw r key")
  case (Inl msg)
  then show ?thesis by (auto simp: probabilities_entry_def)
next
  case (Inr exper)
  show ?thesis
  proof (cases "handle_header (header_to_dict fw exper)")
    case (Inl e)
    then obtain x where x: "header_to_dict fw exper = Inl (Header_OtherException x)"
      "e = OtherException x"
      by (auto simp: handle_header_Inl)
    with Inr have "\<not> header_caught fw r key"
      by (simp add: header_caught_iff)
    with Inr Inl x show ?thesis
      by (auto simp: probabilities_entry_def decode_header_def)
  next
    case ok: (Inr header)
    then have c: "\<forall>x. header_to_dict fw exper \<noteq> Inl (Header_OtherException x)"
      by (simp add: handle_header_Inr)
    with Inr have "header_caught fw r key"
      by (simp add: header_caught_iff)
    with Inr ok c show ?thesis
      by (auto simp: probabilities_entry_def decode_header_def split: sum.splits option.splits)
  qed
qed










lemma exp_keys_Some: "exp_keys r (Some key) = [key]"
  by (simp add: exp_keys_def)

lemma exp_keys_None: "exp_keys r None = map (\<lambda>i. Index (int i)) [0 ..< length (results r)]"
  by (simp add: exp_keys_def)

lemma get_probabilities_Some:
  "get_probabilities fw r (Some key) =
     (case probabilities_entry fw r key of Inl e \<Rightarrow> Inl e | Inr m \<Rightarrow> Inr (Single m))"
  by (simp add: get_probabilities_def exp_keys_Some collapse_def split: sum.splits)

lemma get_calibration_Some:
  "get_calibration fw r (Some key) =
     (case calibration_entry fw r key of Inl e \<Rightarrow> Inl e | Inr c \<Rightarrow> Inr (Single c))"
  by (simp add: get_calibration_def exp_keys_Some collapse_def split: sum.splits)

lemma get_probabilities_Inl_cause:
  "get_probabilities fw r experiment = Inl err \<Longrightarrow>
     \<exists>key \<in> set (exp_keys r experiment). probabilities_entry fw r key = Inl err"
  unfolding get_probabilities_def probabilities_loop_gather
  by (auto dest: gather_Inl_cause split: sum.splits)

subsection \<open>Rendering and reading back\<close>

text \<open>
  The text \<^verbatim>\<open>str\<close> gives for an integer reads back as that integer, so the
  text quoted in an error message renders the key of the message.
\<close>

lemma digit_value_digit: "d < 10 \<Longrightarrow> digit_value (''0123456789'' ! d) = Some d"
proof -
  assume d: "d < 10"
  have "map_of (zip ''0123456789'' [0 ..< 10]) (''0123456789'' ! d) = Some ([0 ..< 10] ! d)"
    by (rule map_of_zip_nth) (use d in simp_all)
  with d show ?thesis by (simp add: digit_value_def del: upt_rec_numeral)
qed

lemma digit_not_minus: "d < 10 \<Longrightarrow> ''0123456789'' ! d \<noteq> CHR ''-''"
proof -
  assume "d < 10"
  then have "''0123456789'' ! d \<in> set ''0123456789''"
    by (intro nth_mem) simp
  then show ?thesis by auto
qed

lemma read_digits_append:
  "read_digits acc (cs @ [c]) =
     (case read_digits acc cs of
        None \<Rightarrow> None
      | Some v \<Rightarrow> (case digit_value c of None \<Rightarrow> None | Some d \<Rightarrow> Some (10 * v + d)))"
  by (induction cs arbitrary: acc) (auto split: option.splits)

lemma str_nat_nonempty: "str_nat n \<noteq> []"
  by (subst str_nat.simps) simp

lemma read_digits_str_nat: "read_digits 0 (str_nat n) = Some n"
proof (induction n rule: str_nat.induct)
  case (1 n)
  show ?case
  proof (cases "n < 10")
    case True
    then show ?thesis
      by (subst str_nat.simps) (simp add: digit_value_digit)
  next
    case False
    with "1.IH" have ih: "read_digits 0 (str_nat (n div 10)) = Some (n div 10)" by simp
    have "digit_value (''0123456789'' ! (n mod 10)) = Some (n mod 10)"
      by (rule digit_value_digit) simp
    with False ih show ?thesis
      by (subst str_nat.simps) (simp add: read_digits_append)
  qed
qed

lemma read_nat_str_nat: "read_nat (str_nat n) = Some n"
  by (simp add: read_nat_def str_nat_nonempty read_digits_str_nat)

lemma hd_str_nat_not_minus: "hd (str_nat n) \<noteq> CHR ''-''"
proof (induction n rule: str_nat.induct)
  case (1 n)
  show ?case
  proof (cases "n < 10")
    case True
    then show ?thesis
      by (subst str_nat.simps) (simp add: digit_not_minus)
  next
    case False
    with "1.IH" have "hd (str_nat (n div 10)) \<noteq> CHR ''-''" by simp
    with False show ?thesis
      by (subst str_nat.simps) (simp add: str_nat_nonempty)
  qed
qed

lemma read_int_str_int: "read_int (str_int i) = Some i"
proof (cases "i < 0")
  case True
  then show ?thesis
    by (simp add: read_int_def str_int_def read_nat_str_nat)
next
  case False
  then show ?thesis
    by (simp add: read_int_def str_int_def read_nat_str_nat hd_str_nat_not_minus)
qed

lemma renders_str_key: "renders key (str_key key)"
  by (cases key) (simp_all add: read_int_str_int)

subsection \<open>Calls without an experiment, failing passes\<close>

lemma gather_Inl_least:
  "gather body keys acc = Inl e \<Longrightarrow>
     \<exists>j < length keys. body (keys ! j) = Inl e \<and> (\<forall>i < j. \<exists>a. body (keys ! i) = Inr a)"
proof (induction keys arbitrary: acc)
  case Nil
  then show ?case by simp
next
  case (Cons key keys)
  show ?case
  proof (cases "body key")
    case (Inl e')
    with Cons.prems have "body ((key # keys) ! 0) = Inl e" by simp
    then show ?thesis by (intro exI[of _ 0]) simp
  next
    case (Inr a)
    with Cons.prems have "gather body keys (acc @ [a]) = Inl e" by simp
    from Cons.IH[OF this] obtain j where j: "j < length keys" "body (keys ! j) = Inl e"
      "\<forall>i < j. \<exists>a. body (keys ! i) = Inr a" by blast
    have "\<forall>i < Suc j. \<exists>a. body ((key # keys) ! i) = Inr a"
    proof (intro allI impI)
      fix i assume "i < Suc j"
      with Inr j(3) show "\<exists>a. body ((key # keys) ! i) = Inr a"
        by (cases i) auto
    qed
    with j show ?thesis by (intro exI[of _ "Suc j"]) simp
  qed
qed

lemma probabilities_entry_error:
  "probabilities_entry fw r key = Inl err \<Longrightarrow> probabilities_error fw r key err"
  unfolding probabilities_entry_Inl probabilities_error_def no_probabilities_def
  using renders_str_key [of key] by blast

lemma get_probabilities_None_Inr:
  assumes "get_probabilities fw r None = Inr out"
  shows "list_all2 (\<lambda>i m. probabilities_of fw r (Index (int i)) m)
           [0 ..< length (results r)] (mappings out)"
    and "out = collapse (mappings out)"
proof -
  from get_probabilities_Inr [OF assms]
  have c: "out = collapse (mappings out)"
    and l: "list_all2 (\<lambda>key m. probabilities_entry fw r key = Inr m)
              (map (\<lambda>i. Index (int i)) [0 ..< length (results r)]) (mappings out)"
    by (simp_all add: exp_keys_None)
  from c show "out = collapse (mappings out)" .
  from l show "list_all2 (\<lambda>i m. probabilities_of fw r (Index (int i)) m)
           [0 ..< length (results r)] (mappings out)"
    by (simp add: list_all2_map1 probabilities_entry_Inr)
qed

lemma get_calibration_None_Inr:
  assumes "get_calibration fw r None = Inr out"
  shows "list_all2 (\<lambda>i c. calibration_of fw r (Index (int i)) c)
           [0 ..< length (results r)] (mappings out)"
    and "out = collapse (mappings out)"
proof -
  from get_calibration_Inr [OF assms]
  have c: "out = collapse (mappings out)"
    and l: "list_all2 (\<lambda>key m. calibration_entry fw r key = Inr m)
              (map (\<lambda>i. Index (int i)) [0 ..< length (results r)]) (mappings out)"
    by (simp_all add: exp_keys_None)
  from c show "out = collapse (mappings out)" .
  from l show "list_all2 (\<lambda>i c. calibration_of fw r (Index (int i)) c)
           [0 ..< length (results r)] (mappings out)"
    by (simp add: list_all2_map1 calibration_entry_Inr)
qed

lemma collapsed_by_index:
  assumes "list_all2 (\<lambda>i a. P (Index (int i)) a) [0 ..< n] (mappings out)"
    and "out = collapse (mappings out)"
  shows "if n = 1 then \<exists>a. out = Single a \<and> P (Index 0) a
         else \<exists>as. out = Many as \<and> list_all2 (\<lambda>i a. P (Index (int i)) a) [0 ..< n] as"
proof (cases "n = 1")
  case True
  with assms(1) obtain a where a: "mappings out = [a]" "P (Index 0) a"
    by (auto simp: list_all2_Cons1)
  with assms(2) have "out = Single a" by (simp add: collapse_def)
  with True a show ?thesis by auto
next
  case False
  from assms(1) have "length (mappings out) = n"
    by (auto dest: list_all2_lengthD)
  with False assms(2) have "out = Many (mappings out)" by (simp add: collapse_def)
  with False assms(1) show ?thesis by auto
qed

lemma get_probabilities_None_Inl:
  assumes "get_probabilities fw r None = Inl err"
  shows "\<exists>j < length (results r).
           (\<forall>i < j. \<exists>m. probabilities_of fw r (Index (int i)) m) \<and>
           probabilities_error fw r (Index (int j)) err"
proof -
  from assms have "gather (probabilities_entry fw r)
      (map (\<lambda>i. Index (int i)) [0 ..< length (results r)]) [] = Inl err"
    by (simp add: get_probabilities_def probabilities_loop_gather exp_keys_None
        split: sum.splits)
  from gather_Inl_least [OF this] obtain j where j: "j < length (results r)"
    and e: "probabilities_entry fw r (Index (int j)) = Inl err"
    and b: "\<forall>i < j. \<exists>m. probabilities_entry fw r (Index (int i)) = Inr m"
    by auto
  from b have "\<forall>i < j. \<exists>m. probabilities_of fw r (Index (int i)) m"
    by (simp add: probabilities_entry_Inr)
  with j probabilities_entry_error [OF e] show ?thesis by blast
qed

lemma exp_keys_eq:
  "exp_keys r experiment =
     (case experiment of
        None \<Rightarrow> map (\<lambda>i. Index (int i)) [0 ..< length (results r)]
      | Some key \<Rightarrow> [key])"
  by (simp add: exp_keys_def)

lemma caught_failure_handle:
  "caught_failure decoded \<Longrightarrow> handle_header decoded = Inr None"
  by (cases decoded rule: caught_failure.cases) simp_all

subsection \<open>The accessors as reads\<close>

text \<open>
  When the operations of the SDK are reads, a call of the state-passing accessor
  returns the result object as it was, together with the value of the accessor of
  the first model on the same operations.
\<close>

lemma reads_only_get_experiment:
  "reads_only fws \<Longrightarrow>
     get_experiment_st fws key s = (get_experiment (reads_of fws s) s key, s)"
  by (simp add: reads_only_def reads_of_def prod_eq_iff)

lemma reads_only_data:
  "reads_only fws \<Longrightarrow> data_st fws key s = (data (reads_of fws s) s key, s)"
  by (simp add: reads_only_def reads_of_def prod_eq_iff)

lemma reads_only_header_to_dict:
  "reads_only fws \<Longrightarrow>
     header_to_dict_st fws exper s = (header_to_dict (reads_of fws s) exper, s)"
  by (simp add: reads_only_def reads_of_def prod_eq_iff)

lemma reads_only_format_counts:
  "reads_only fws \<Longrightarrow>
     format_counts_st fws v h s = (format_counts (reads_of fws s) v h, s)"
  by (simp add: reads_only_def reads_of_def prod_eq_iff)

lemma probabilities_loop_st_reads:
  assumes "reads_only fws"
  shows "probabilities_loop_st fws keys acc s =
           (probabilities_loop (reads_of fws s) s keys acc, s)"
proof (induction keys arbitrary: acc)
  case Nil
  show ?case by simp
next
  case (Cons key keys)
  note ops = reads_only_get_experiment [OF assms] reads_only_data [OF assms]
    reads_only_header_to_dict [OF assms] reads_only_format_counts [OF assms]
  show ?case
    by (simp add: ops Cons.IH probabilities_entry_def decode_header_def
        split: sum.splits option.splits)
qed

lemma calibration_loop_st_reads:
  assumes "reads_only fws"
  shows "calibration_loop_st fws keys acc s =
           (calibration_loop (reads_of fws s) s keys acc, s)"
proof (induction keys arbitrary: acc)
  case Nil
  show ?case by simp
next
  case (Cons key keys)
  note ops = reads_only_get_experiment [OF assms] reads_only_data [OF assms]
  show ?case
    by (simp add: ops Cons.IH calibration_entry_def split: sum.splits option.splits)
qed

lemma get_probabilities_st_reads:
  "reads_only fws \<Longrightarrow>
     get_probabilities_st fws experiment s = (get_probabilities (reads_of fws s) s experiment, s)"
  by (simp add: get_probabilities_st_def get_probabilities_def probabilities_loop_st_reads
      split: sum.splits)

lemma get_calibration_st_reads:
  "reads_only fws \<Longrightarrow>
     get_calibration_st fws experiment s = (get_calibration (reads_of fws s) s experiment, s)"
  by (simp add: get_calibration_st_def get_calibration_def calibration_loop_st_reads
      split: sum.splits)

lemma reads_only_as_reads: "reads_only (as_reads fw)"
  by (simp add: reads_only_def as_reads_def)

lemma reads_of_as_reads: "reads_of (as_reads fw) s = fw"
  by (simp add: reads_of_def as_reads_def)

lemma get_probabilities_st_as_reads:
  "get_probabilities_st (as_reads fw) experiment s = (get_probabilities fw s experiment, s)"
  by (simp add: get_probabilities_st_reads reads_only_as_reads reads_of_as_reads)

lemma get_calibration_st_as_reads:
  "get_calibration_st (as_reads fw) experiment s = (get_calibration fw s experiment, s)"
  by (simp add: get_calibration_st_reads reads_only_as_reads reads_of_as_reads)

section \<open>The properties of the accessors\<close>

text \<open>
  C1. When a call of either accessor succeeds: with an explicit experiment what
  is returned is the single mapping of that experiment, not a list; with none and
  exactly one result record in the store, the single mapping of that record; in
  every other case the list of the mappings, one per result record, in the order of
  the store. The mapping of an experiment is the formatted probabilities, or the
  stored calibration, of the record the key resolves to.
\<close>

theorem singleton_collapse:
  "(get_probabilities fw r (Some key) = Inr out \<longrightarrow>
      (\<exists>m. out = Single m \<and> probabilities_of fw r key m))
   \<and> (get_probabilities fw r None = Inr out \<longrightarrow>
      (if length (results r) = 1 then \<exists>m. out = Single m \<and> probabilities_of fw r (Index 0) m
       else \<exists>ms. out = Many ms \<and>
              list_all2 (\<lambda>i m. probabilities_of fw r (Index (int i)) m)
                [0 ..< length (results r)] ms))
   \<and> (get_calibration fw r (Some key) = Inr out' \<longrightarrow>
      (\<exists>c. out' = Single c \<and> calibration_of fw r key c))
   \<and> (get_calibration fw r None = Inr out' \<longrightarrow>
      (if length (results r) = 1 then \<exists>c. out' = Single c \<and> calibration_of fw r (Index 0) c
       else \<exists>cs. out' = Many cs \<and>
              list_all2 (\<lambda>i c. calibration_of fw r (Index (int i)) c)
                [0 ..< length (results r)] cs))"
proof (intro conjI impI)
  assume "get_probabilities fw r (Some key) = Inr out"
  then show "\<exists>m. out = Single m \<and> probabilities_of fw r key m"
    by (auto simp: get_probabilities_Some probabilities_entry_Inr split: sum.splits)
next
  assume "get_probabilities fw r None = Inr out"
  from collapsed_by_index [OF get_probabilities_None_Inr [OF this]]
  show "if length (results r) = 1 then \<exists>m. out = Single m \<and> probabilities_of fw r (Index 0) m
       else \<exists>ms. out = Many ms \<and>
              list_all2 (\<lambda>i m. probabilities_of fw r (Index (int i)) m)
                [0 ..< length (results r)] ms" .
next
  assume "get_calibration fw r (Some key) = Inr out'"
  then show "\<exists>c. out' = Single c \<and> calibration_of fw r key c"
    by (auto simp: get_calibration_Some calibration_entry_Inr split: sum.splits)
next
  assume "get_calibration fw r None = Inr out'"
  from collapsed_by_index [OF get_calibration_None_Inr [OF this]]
  show "if length (results r) = 1 then \<exists>c. out' = Single c \<and> calibration_of fw r (Index 0) c
       else \<exists>cs. out' = Many cs \<and>
              list_all2 (\<lambda>i c. calibration_of fw r (Index (int i)) c)
                [0 ..< length (results r)] cs" .
qed

theorem singleton_collapse_witness:
  "get_probabilities sdk (store [bell, flip]) (Some (Name ''bell'')) =
     Inr (Single [(''00'', 0.5), (''11'', 0.5)])
   \<and> probabilities_of sdk (store [bell, flip]) (Name ''bell'') [(''00'', 0.5), (''11'', 0.5)]
   \<and> get_probabilities sdk (store [bell]) None = Inr (Single [(''00'', 0.5), (''11'', 0.5)])
   \<and> probabilities_of sdk (store [bell]) (Index 0) [(''00'', 0.5), (''11'', 0.5)]
   \<and> get_probabilities sdk (store [bell, flip]) None =
       Inr (Many [[(''00'', 0.5), (''11'', 0.5)], [(''1'', 1)]])
   \<and> list_all2 (\<lambda>i m. probabilities_of sdk (store [bell, flip]) (Index (int i)) m)
         [0 ..< length (results (store [bell, flip]))]
         [[(''00'', 0.5), (''11'', 0.5)], [(''1'', 1)]]
   \<and> get_calibration sdk (store [bell, flip]) (Some (Index 1)) = Inr (Single [])
   \<and> calibration_of sdk (store [bell, flip]) (Index 1) []
   \<and> get_calibration sdk (store [bell, flip]) None = Inr (Many [[(''t1'', 17.5)], []])
   \<and> list_all2 (\<lambda>i c. calibration_of sdk (store [bell, flip]) (Index (int i)) c)
         [0 ..< length (results (store [bell, flip]))] [[(''t1'', 17.5)], []]"
proof -
  have n1: "length (results (store [bell])) = 1"
    and n2: "length (results (store [bell, flip])) \<noteq> 1"
    by (simp_all add: store_def)
  have p1: "get_probabilities sdk (store [bell, flip]) (Some (Name ''bell'')) =
     Inr (Single [(''00'', 0.5), (''11'', 0.5)])"
    by code_simp
  have p2: "get_probabilities sdk (store [bell]) None = Inr (Single [(''00'', 0.5), (''11'', 0.5)])"
    by code_simp
  have p3: "get_probabilities sdk (store [bell, flip]) None =
       Inr (Many [[(''00'', 0.5), (''11'', 0.5)], [(''1'', 1)]])"
    by code_simp
  have c1: "get_calibration sdk (store [bell, flip]) (Some (Index 1)) = Inr (Single [])"
    by code_simp
  have c3: "get_calibration sdk (store [bell, flip]) None = Inr (Many [[(''t1'', 17.5)], []])"
    by code_simp
  from p1 c1
    singleton_collapse [of sdk "store [bell, flip]" "Name ''bell''"
      "Single [(''00'', 0.5), (''11'', 0.5)]" "Single []"]
  have q1: "probabilities_of sdk (store [bell, flip]) (Name ''bell'') [(''00'', 0.5), (''11'', 0.5)]"
    by simp
  from c1
    singleton_collapse [of sdk "store [bell, flip]" "Index 1"
      "Single [(''00'', 0.5), (''11'', 0.5)]" "Single []"]
  have d1: "calibration_of sdk (store [bell, flip]) (Index 1) []"
    by simp
  from p2 n1
    singleton_collapse [of sdk "store [bell]" "Index 0"
      "Single [(''00'', 0.5), (''11'', 0.5)]" "Single []"]
  have q2: "probabilities_of sdk (store [bell]) (Index 0) [(''00'', 0.5), (''11'', 0.5)]"
    by simp
  from p3 c3 n2
    singleton_collapse [of sdk "store [bell, flip]" "Index 0"
      "Many [[(''00'', 0.5), (''11'', 0.5)], [(''1'', 1)]]" "Many [[(''t1'', 17.5)], []]"]
  have q3: "list_all2 (\<lambda>i m. probabilities_of sdk (store [bell, flip]) (Index (int i)) m)
         [0 ..< length (results (store [bell, flip]))]
         [[(''00'', 0.5), (''11'', 0.5)], [(''1'', 1)]]"
    and d3: "list_all2 (\<lambda>i c. calibration_of sdk (store [bell, flip]) (Index (int i)) c)
         [0 ..< length (results (store [bell, flip]))] [[(''t1'', 17.5)], []]"
    by simp_all
  from p1 q1 p2 q2 p3 q3 c1 d1 c3 d3 show ?thesis by blast
qed




text \<open>
  C3, as amended. A call of \<^verbatim>\<open>get_probabilities\<close> without an experiment hands
  the indices \<open>0, 1, \<dots>\<close> of the store to the resolver in that order. A call that
  succeeds has produced one formatted mapping per index, in the same order; they
  are returned as a list of that length, except when the store holds exactly one
  result record: then the single mapping is returned, not a list. A call that fails
  ends in the error of the least index whose pass fails, every index before it
  having yielded its mapping.
\<close>

theorem all_experiments_in_store_order:
  "(get_probabilities fw r None = Inr out \<longrightarrow>
      list_all2 (\<lambda>i m. probabilities_of fw r (Index (int i)) m)
        [0 ..< length (results r)] (mappings out) \<and>
      out = (if length (results r) = 1 then Single (mappings out ! 0) else Many (mappings out)))
   \<and> (get_probabilities fw r None = Inl err \<longrightarrow>
      (\<exists>j < length (results r).
         (\<forall>i < j. \<exists>m. probabilities_of fw r (Index (int i)) m) \<and>
         probabilities_error fw r (Index (int j)) err))"
proof (intro conjI impI)
  assume ok: "get_probabilities fw r None = Inr out"
  from get_probabilities_None_Inr [OF ok]
  have l: "list_all2 (\<lambda>i m. probabilities_of fw r (Index (int i)) m)
        [0 ..< length (results r)] (mappings out)"
    and c: "out = collapse (mappings out)" .
  from l show "list_all2 (\<lambda>i m. probabilities_of fw r (Index (int i)) m)
        [0 ..< length (results r)] (mappings out)" .
  from l have "length (mappings out) = length (results r)"
    by (auto dest: list_all2_lengthD)
  with c show "out = (if length (results r) = 1 then Single (mappings out ! 0)
                      else Many (mappings out))"
    by (simp add: collapse_def)
next
  assume "get_probabilities fw r None = Inl err"
  then show "\<exists>j < length (results r).
         (\<forall>i < j. \<exists>m. probabilities_of fw r (Index (int i)) m) \<and>
         probabilities_error fw r (Index (int j)) err"
    by (rule get_probabilities_None_Inl)
qed

theorem all_experiments_in_store_order_witness:
  "get_probabilities sdk (store [bell, flip]) None =
     Inr (Many [[(''00'', 0.5), (''11'', 0.5)], [(''1'', 1)]])
   \<and> list_all2 (\<lambda>i m. probabilities_of sdk (store [bell, flip]) (Index (int i)) m)
        [0 ..< length (results (store [bell, flip]))]
        (mappings (Many [[(''00'', 0.5), (''11'', 0.5)], [(''1'', 1)]]))
   \<and> get_probabilities sdk (store [bell, ramsey, blank]) None =
       Inl (QiskitBackendError ''No probabilities for experiment \"1\"'')
   \<and> (\<exists>j < length (results (store [bell, ramsey, blank])).
         (\<forall>i < j. \<exists>m. probabilities_of sdk (store [bell, ramsey, blank]) (Index (int i)) m) \<and>
         probabilities_error sdk (store [bell, ramsey, blank]) (Index (int j))
           (QiskitBackendError ''No probabilities for experiment \"1\"''))"
proof -
  have p: "get_probabilities sdk (store [bell, flip]) None =
     Inr (Many [[(''00'', 0.5), (''11'', 0.5)], [(''1'', 1)]])"
    by code_simp
  have e: "get_probabilities sdk (store [bell, ramsey, blank]) None =
       Inl (QiskitBackendError ''No probabilities for experiment \"1\"'')"
    by code_simp
  from p all_experiments_in_store_order [of sdk "store [bell, flip]"
      "Many [[(''00'', 0.5), (''11'', 0.5)], [(''1'', 1)]]"]
  have l: "list_all2 (\<lambda>i m. probabilities_of sdk (store [bell, flip]) (Index (int i)) m)
        [0 ..< length (results (store [bell, flip]))]
        (mappings (Many [[(''00'', 0.5), (''11'', 0.5)], [(''1'', 1)]]))"
    by blast
  from e all_experiments_in_store_order [of sdk "store [bell, ramsey, blank]" _
      "QiskitBackendError ''No probabilities for experiment \"1\"''"]
  have f: "\<exists>j < length (results (store [bell, ramsey, blank])).
         (\<forall>i < j. \<exists>m. probabilities_of sdk (store [bell, ramsey, blank]) (Index (int i)) m) \<and>
         probabilities_error sdk (store [bell, ramsey, blank]) (Index (int j))
           (QiskitBackendError ''No probabilities for experiment \"1\"'')"
    by blast
  from p l e f show ?thesis by blast
qed

text \<open>
  Without the exception C3 fails: on a store of one result record, carrying
  probabilities, the value returned is the mapping and not a one-element list.
\<close>

theorem one_experiment_not_a_list:
  "get_probabilities sdk (store [bell]) None = Inr (Single [(''00'', 0.5), (''11'', 0.5)])
   \<and> get_probabilities sdk (store [bell]) None \<noteq> Inr (Many [[(''00'', 0.5), (''11'', 0.5)]])"
proof -
  have "get_probabilities sdk (store [bell]) None = Inr (Single [(''00'', 0.5), (''11'', 0.5)])"
    by code_simp
  then show ?thesis by simp
qed

text \<open>
  C4. For a resolved experiment whose data mapping holds \<^verbatim>\<open>"calibration"\<close>,
  \<^verbatim>\<open>get_calibration\<close> appends, and on success returns, the stored value itself:
  neither the header nor the formatting routine touches it.
\<close>

theorem calibration_returned_raw:
  "(get_experiment fw r key = Inr exper \<and> data fw r key = Inr d \<and> d ''calibration'' = Some c \<longrightarrow>
      calibration_entry fw r key = Inr c \<and> get_calibration fw r (Some key) = Inr (Single c))
   \<and> (get_calibration fw r experiment = Inr out \<longrightarrow>
      list_all2 (\<lambda>key c. \<exists>d. data fw r key = Inr d \<and> d ''calibration'' = Some c)
        (exp_keys r experiment) (mappings out))"
proof (intro conjI impI)
  assume a: "get_experiment fw r key = Inr exper \<and> data fw r key = Inr d \<and> d ''calibration'' = Some c"
  then show e: "calibration_entry fw r key = Inr c"
    by (auto simp: calibration_entry_Inr calibration_of_def)
  then show "get_calibration fw r (Some key) = Inr (Single c)"
    by (simp add: get_calibration_Some)
next
  assume "get_calibration fw r experiment = Inr out"
  from get_calibration_Inr[OF this]
  have "list_all2 (\<lambda>key c. calibration_entry fw r key = Inr c) (exp_keys r experiment) (mappings out)"
    by simp
  then show "list_all2 (\<lambda>key c. \<exists>d. data fw r key = Inr d \<and> d ''calibration'' = Some c)
        (exp_keys r experiment) (mappings out)"
    by (rule list_all2_mono) (auto simp: calibration_entry_Inr calibration_of_def)
qed

theorem calibration_returned_raw_witness:
  "get_experiment sdk (store [bell, flip]) (Index 0) = Inr bell
   \<and> data sdk (store [bell, flip]) (Index 0) = Inr (map_of (exp_data bell))
   \<and> map_of (exp_data bell) ''calibration'' = Some [(''t1'', 17.5)]
   \<and> calibration_entry sdk (store [bell, flip]) (Index 0) = Inr [(''t1'', 17.5)]
   \<and> get_calibration sdk (store [bell, flip]) (Some (Index 0)) = Inr (Single [(''t1'', 17.5)])
   \<and> get_calibration sdk (store [bell, flip]) None = Inr (Many [[(''t1'', 17.5)], []])
   \<and> list_all2
        (\<lambda>key c. \<exists>d. data sdk (store [bell, flip]) key = Inr d \<and> d ''calibration'' = Some c)
        (exp_keys (store [bell, flip]) None)
        (mappings (Many [[(''t1'', 17.5)], []]))"
proof -
  have e: "get_experiment sdk (store [bell, flip]) (Index 0) = Inr bell"
    by (simp add: sdk_def store_def)
  have d: "data sdk (store [bell, flip]) (Index 0) = Inr (map_of (exp_data bell))"
    by (simp add: sdk_def sdk_data_def store_def)
  have c: "map_of (exp_data bell) ''calibration'' = Some [(''t1'', 17.5)]"
    by (simp add: bell_def)
  have a: "get_calibration sdk (store [bell, flip]) None = Inr (Many [[(''t1'', 17.5)], []])"
    by code_simp
  from e d c a
    calibration_returned_raw [of sdk "store [bell, flip]" "Index 0" bell
      "map_of (exp_data bell)" "[(''t1'', 17.5)]" None "Many [[(''t1'', 17.5)], []]"]
  show ?thesis by blast
qed



text \<open>
  C6, as amended. A failure of header decoding of class \<^verbatim>\<open>AttributeError\<close> or
  \<^verbatim>\<open>QiskitError\<close> gives \<^verbatim>\<open>header = None\<close> and leaves no trace in the outcome:
  the experiment yields its mapping formatted without a header, or the
  missing-data error, or the data accessor's error. An exception of any other class
  raised by header decoding is not caught and leaves \<^verbatim>\<open>get_probabilities\<close>. Every
  error of a call is the resolver's, the data accessor's, the missing-data error or
  such an uncaught exception, for a key of the call.
\<close>

theorem header_failure_swallowed:
  "(caught_failure (header_to_dict fw exper) \<longrightarrow> decode_header fw exper = Inr None)
   \<and> (get_experiment fw r key = Inr exper \<and> caught_failure (header_to_dict fw exper) \<and>
        data fw r key = Inr d \<and> d ''probabilities'' = Some p \<longrightarrow>
        get_probabilities fw r (Some key) = Inr (Single (format_counts fw p None)))
   \<and> (get_experiment fw r key = Inr exper \<and> caught_failure (header_to_dict fw exper) \<and>
        data fw r key = Inr d \<and> d ''probabilities'' = None \<longrightarrow>
        (\<exists>text. renders key text \<and>
           get_probabilities fw r (Some key) =
             Inl (QiskitBackendError (''No probabilities for experiment \"'' @ text @ ''\"''))))
   \<and> (get_experiment fw r key = Inr exper \<and> caught_failure (header_to_dict fw exper) \<and>
        data fw r key = Inl msg \<longrightarrow>
        get_probabilities fw r (Some key) = Inl (QiskitError msg))
   \<and> (get_experiment fw r key = Inr exper \<and>
        header_to_dict fw exper = Inl (Header_OtherException x) \<longrightarrow>
        get_probabilities fw r (Some key) = Inl (OtherException x))
   \<and> (get_probabilities fw r experiment = Inl err \<longrightarrow>
        (\<exists>key \<in> set (case experiment of
                        None \<Rightarrow> map (\<lambda>i. Index (int i)) [0 ..< length (results r)]
                      | Some key \<Rightarrow> [key]).
           probabilities_error fw r key err))"
proof (intro conjI impI)
  assume "caught_failure (header_to_dict fw exper)"
  then show "decode_header fw exper = Inr None"
    by (simp add: decode_header_def caught_failure_handle)
next
  assume "get_experiment fw r key = Inr exper \<and> caught_failure (header_to_dict fw exper) \<and>
        data fw r key = Inr d \<and> d ''probabilities'' = Some p"
  then show "get_probabilities fw r (Some key) = Inr (Single (format_counts fw p None))"
    by (simp add: get_probabilities_Some probabilities_entry_def decode_header_def
        caught_failure_handle)
next
  assume "get_experiment fw r key = Inr exper \<and> caught_failure (header_to_dict fw exper) \<and>
        data fw r key = Inr d \<and> d ''probabilities'' = None"
  then have "get_probabilities fw r (Some key) =
      Inl (QiskitBackendError (''No probabilities for experiment \"'' @ str_key key @ ''\"''))"
    by (simp add: get_probabilities_Some probabilities_entry_def decode_header_def
        caught_failure_handle no_probabilities_def)
  with renders_str_key [of key]
  show "\<exists>text. renders key text \<and>
           get_probabilities fw r (Some key) =
             Inl (QiskitBackendError (''No probabilities for experiment \"'' @ text @ ''\"''))"
    by blast
next
  assume "get_experiment fw r key = Inr exper \<and> caught_failure (header_to_dict fw exper) \<and>
        data fw r key = Inl msg"
  then show "get_probabilities fw r (Some key) = Inl (QiskitError msg)"
    by (simp add: get_probabilities_Some probabilities_entry_def decode_header_def
        caught_failure_handle)
next
  assume "get_experiment fw r key = Inr exper \<and>
        header_to_dict fw exper = Inl (Header_OtherException x)"
  then show "get_probabilities fw r (Some key) = Inl (OtherException x)"
    by (simp add: get_probabilities_Some probabilities_entry_def decode_header_def)
next
  assume "get_probabilities fw r experiment = Inl err"
  then obtain key where k: "key \<in> set (exp_keys r experiment)"
    and e: "probabilities_entry fw r key = Inl err"
    by (blast dest: get_probabilities_Inl_cause)
  from k probabilities_entry_error [OF e]
  show "\<exists>key \<in> set (case experiment of
                        None \<Rightarrow> map (\<lambda>i. Index (int i)) [0 ..< length (results r)]
                      | Some key \<Rightarrow> [key]).
           probabilities_error fw r key err"
    unfolding exp_keys_eq by blast
qed

theorem header_failure_swallowed_witness:
  "caught_failure (header_to_dict sdk flip)
   \<and> decode_header sdk flip = Inr None
   \<and> get_experiment sdk (store [flip, bare, skew]) (Index 0) = Inr flip
   \<and> data sdk (store [flip, bare, skew]) (Index 0) = Inr (map_of (exp_data flip))
   \<and> map_of (exp_data flip) ''probabilities'' = Some [(''1'', 1)]
   \<and> get_probabilities sdk (store [flip, bare, skew]) (Some (Index 0)) =
        Inr (Single (format_counts sdk [(''1'', 1)] None))
   \<and> get_experiment sdk (store [flip, bare, skew]) (Index 2) = Inr skew
   \<and> header_to_dict sdk skew = Inl (Header_OtherException ''ValueError'')
   \<and> get_probabilities sdk (store [flip, bare, skew]) (Some (Index 2)) =
        Inl (OtherException ''ValueError'')
   \<and> get_probabilities sdk (store [flip, bare, skew]) None =
        Inl (QiskitBackendError ''No probabilities for experiment \"1\"'')"
proof -
  have h: "caught_failure (header_to_dict sdk flip)"
    by (simp add: sdk_def sdk_header_to_dict_def flip_def)
  have e: "get_experiment sdk (store [flip, bare, skew]) (Index 0) = Inr flip"
    by (simp add: sdk_def store_def)
  have d: "data sdk (store [flip, bare, skew]) (Index 0) = Inr (map_of (exp_data flip))"
    by (simp add: sdk_def sdk_data_def store_def)
  have p: "map_of (exp_data flip) ''probabilities'' = Some [(''1'', 1)]"
    by (simp add: flip_def)
  have e2: "get_experiment sdk (store [flip, bare, skew]) (Index 2) = Inr skew"
    by (simp add: sdk_def store_def)
  have h2: "header_to_dict sdk skew = Inl (Header_OtherException ''ValueError'')"
    by (simp add: sdk_def sdk_header_to_dict_def skew_def)
  have a: "get_probabilities sdk (store [flip, bare, skew]) None =
        Inl (QiskitBackendError ''No probabilities for experiment \"1\"'')"
    by code_simp
  from h e d p
    header_failure_swallowed [of sdk flip "store [flip, bare, skew]" "Index 0"
      "map_of (exp_data flip)" "[(''1'', 1)]"]
  have s1: "decode_header sdk flip = Inr None"
    and s2: "get_probabilities sdk (store [flip, bare, skew]) (Some (Index 0)) =
        Inr (Single (format_counts sdk [(''1'', 1)] None))"
    by blast+
  from e2 h2
    header_failure_swallowed [of sdk skew "store [flip, bare, skew]" "Index 2" _ _ _
      "''ValueError''"]
  have s3: "get_probabilities sdk (store [flip, bare, skew]) (Some (Index 2)) =
        Inl (OtherException ''ValueError'')"
    by blast
  from h s1 e d p s2 e2 h2 s3 a show ?thesis by blast
qed

text \<open>
  C6 as first stated, that no failure of header decoding leaves the accessor, fails
  on a record whose header raises a \<^verbatim>\<open>ValueError\<close> when decoded.
\<close>

theorem header_value_error_propagates:
  "header_to_dict sdk skew = Inl (Header_OtherException ''ValueError'')
   \<and> get_probabilities sdk (store [skew]) None = Inl (OtherException ''ValueError'')
   \<and> get_probabilities sdk (store [skew]) (Some (Index 0)) = Inl (OtherException ''ValueError'')"
proof -
  have a: "header_to_dict sdk skew = Inl (Header_OtherException ''ValueError'')"
    by (simp add: sdk_def sdk_header_to_dict_def skew_def)
  have b: "get_probabilities sdk (store [skew]) None = Inl (OtherException ''ValueError'')"
    by code_simp
  have c: "get_probabilities sdk (store [skew]) (Some (Index 0)) =
      Inl (OtherException ''ValueError'')"
    by code_simp
  from a b c show ?thesis by blast
qed

text \<open>
  C7. With an explicit experiment that the resolver rejects, both accessors end
  in the resolver's error, unchanged, and not in their own missing-data error.
\<close>

theorem unresolved_identifier_error:
  assumes "get_experiment fw r key = Inl msg"
  shows "get_probabilities fw r (Some key) = Inl (QiskitError msg) \<and>
     get_calibration fw r (Some key) = Inl (QiskitError msg) \<and>
     (\<forall>text. get_probabilities fw r (Some key) \<noteq> Inl (QiskitBackendError text)) \<and>
     (\<forall>text. get_calibration fw r (Some key) \<noteq> Inl (QiskitBackendError text))"
proof -
  from assms have "probabilities_entry fw r key = Inl (QiskitError msg)"
    by (simp add: probabilities_entry_def)
  then have p: "get_probabilities fw r (Some key) = Inl (QiskitError msg)"
    by (simp add: get_probabilities_Some)
  from assms have "calibration_entry fw r key = Inl (QiskitError msg)"
    by (simp add: calibration_entry_def)
  then have c: "get_calibration fw r (Some key) = Inl (QiskitError msg)"
    by (simp add: get_calibration_Some)
  from p c show ?thesis by simp
qed

theorem unresolved_identifier_error_witness:
  "get_experiment sdk (store [bell, flip]) (Index 2) =
     Inl ''Result for experiment \"2\" could not be found.''
   \<and> get_probabilities sdk (store [bell, flip]) (Some (Index 2)) =
       Inl (QiskitError ''Result for experiment \"2\" could not be found.'')
   \<and> get_calibration sdk (store [bell, flip]) (Some (Index 2)) =
       Inl (QiskitError ''Result for experiment \"2\" could not be found.'')"
proof -
  have h: "get_experiment sdk (store [bell, flip]) (Index 2) =
     Inl ''Result for experiment \"2\" could not be found.''"
    by code_simp
  from unresolved_identifier_error [OF h] h show ?thesis by simp
qed

text \<open>
  C8. Both accessors are reads: when the operations of the SDK return the result
  object as they received it, so does a call of either accessor, whether it returns
  a value or raises.
\<close>

theorem accessors_leave_result_unchanged:
  "reads_only fws \<Longrightarrow>
     snd (get_probabilities_st fws experiment s) = s \<and>
     snd (get_calibration_st fws experiment s) = s"
proof
  assume ro: "reads_only fws"
  then have "get_probabilities_st fws experiment s =
      (get_probabilities (reads_of fws s) s experiment, s)"
    by (rule get_probabilities_st_reads)
  then show "snd (get_probabilities_st fws experiment s) = s" by simp
  from ro have "get_calibration_st fws experiment s =
      (get_calibration (reads_of fws s) s experiment, s)"
    by (rule get_calibration_st_reads)
  then show "snd (get_calibration_st fws experiment s) = s" by simp
qed

theorem accessors_leave_result_unchanged_witness:
  "reads_only (as_reads sdk)
   \<and> get_probabilities_st (as_reads sdk) None (store [bell, bare]) =
       (Inl (QiskitBackendError ''No probabilities for experiment \"1\"''), store [bell, bare])
   \<and> get_calibration_st (as_reads sdk) None (store [bell, bare]) =
       (Inl (QiskitBackendError ''No calibration data for experiment \"1\"''), store [bell, bare])
   \<and> snd (get_probabilities_st (as_reads sdk) (Some (Name ''bell'')) (store [bell, bare])) =
       store [bell, bare]
   \<and> fst (get_probabilities_st (as_reads sdk) (Some (Name ''bell'')) (store [bell, bare])) =
       Inr (Single [(''00'', 0.5), (''11'', 0.5)])"
proof -
  have r: "reads_only (as_reads sdk)"
    by (rule reads_only_as_reads)
  have p: "fst (get_probabilities_st (as_reads sdk) None (store [bell, bare])) =
       Inl (QiskitBackendError ''No probabilities for experiment \"1\"'')"
    by code_simp
  have c: "fst (get_calibration_st (as_reads sdk) None (store [bell, bare])) =
       Inl (QiskitBackendError ''No calibration data for experiment \"1\"'')"
    by code_simp
  have q: "fst (get_probabilities_st (as_reads sdk) (Some (Name ''bell'')) (store [bell, bare])) =
       Inr (Single [(''00'', 0.5), (''11'', 0.5)])"
    by code_simp
  from r p c q
    accessors_leave_result_unchanged [OF r, of None "store [bell, bare]"]
    accessors_leave_result_unchanged [OF r, of "Some (Name ''bell'')" "store [bell, bare]"]
  show ?thesis by (simp add: prod_eq_iff)
qed

text \<open>
  C9. On a result object whose \<^verbatim>\<open>results\<close> is empty, both accessors called
  without an experiment return the empty list: no error is raised, and nothing is
  unwrapped.
\<close>

theorem empty_store_empty_list:
  "results r = [] \<Longrightarrow>
     get_probabilities fw r None = Inr (Many []) \<and> get_calibration fw r None = Inr (Many [])"
  by (simp add: get_probabilities_def get_calibration_def exp_keys_def collapse_def)

theorem empty_store_empty_list_witness:
  "results (store []) = [] \<and>
   get_probabilities sdk (store []) None = Inr (Many []) \<and>
   get_calibration sdk (store []) None = Inr (Many [])"
  using empty_store_empty_list [of "store []" sdk] by (simp add: store_def)

text \<open>
  C10. Both accessors are deterministic: a second call with the same argument,
  made on the result object the first call left, has the outcome of the first, the
  same value or the same error.
\<close>

theorem accessors_deterministic:
  "reads_only fws \<Longrightarrow>
     fst (get_probabilities_st fws experiment (snd (get_probabilities_st fws experiment s))) =
       fst (get_probabilities_st fws experiment s) \<and>
     fst (get_calibration_st fws experiment (snd (get_calibration_st fws experiment s))) =
       fst (get_calibration_st fws experiment s)"
proof
  assume ro: "reads_only fws"
  then have "snd (get_probabilities_st fws experiment s) = s"
    by (simp add: get_probabilities_st_reads)
  then show "fst (get_probabilities_st fws experiment
                (snd (get_probabilities_st fws experiment s))) =
       fst (get_probabilities_st fws experiment s)"
    by simp
  from ro have "snd (get_calibration_st fws experiment s) = s"
    by (simp add: get_calibration_st_reads)
  then show "fst (get_calibration_st fws experiment
                (snd (get_calibration_st fws experiment s))) =
       fst (get_calibration_st fws experiment s)"
    by simp
qed

theorem accessors_deterministic_witness:
  "reads_only (as_reads sdk)
   \<and> fst (get_probabilities_st (as_reads sdk) None
            (snd (get_probabilities_st (as_reads sdk) None (store [bell, flip])))) =
       fst (get_probabilities_st (as_reads sdk) None (store [bell, flip]))
   \<and> fst (get_probabilities_st (as_reads sdk) None (store [bell, flip])) =
       Inr (Many [[(''00'', 0.5), (''11'', 0.5)], [(''1'', 1)]])
   \<and> fst (get_calibration_st (as_reads sdk) None
            (snd (get_calibration_st (as_reads sdk) None (store [bell, flip])))) =
       fst (get_calibration_st (as_reads sdk) None (store [bell, flip]))"
proof -
  have r: "reads_only (as_reads sdk)"
    by (rule reads_only_as_reads)
  have p: "fst (get_probabilities_st (as_reads sdk) None (store [bell, flip])) =
       Inr (Many [[(''00'', 0.5), (''11'', 0.5)], [(''1'', 1)]])"
    by code_simp
  from r p accessors_deterministic [OF r, of None "store [bell, flip]"]
  show ?thesis by blast
qed

end
